theory Spec2Isabelle
  imports Complex_Main
begin

section \<open>The values the handlers receive\<close>

text \<open>
  \<^verbatim>\<open>src/src/index.ts\<close> is a protocol adapter written in TypeScript: it registers two request
  handlers and reads one environment variable. The handlers coerce untyped call arguments with
  the language's own \<^verbatim>\<open>String(...)\<close>, \<^verbatim>\<open>Number(...)\<close>, \<^verbatim>\<open>!\<close> and \<^verbatim>\<open>||\<close>, so the
  development starts with the values those operators work on and with the operators
  themselves, as ECMAScript defines them.

  A number is an IEEE 754 double. \<open>Finite q\<close> is the finite double whose value is the
  rational \<open>q\<close>; \<open>Finite 0\<close> is \<open>+0\<close> and \<open>NegZero\<close> is \<open>-0\<close>. Every conversion below
  produces only rationals that a double can hold.

  A string is a list of code units; \<^typ>\<open>char\<close> has eight bits, so the strings of the model are
  those whose code units are below 256. An object lists its own properties in enumeration
  order, with distinct keys. The values are those a request decoded from JSON can carry,
  and \<open>JUndefined\<close>, which reading a missing property gives.
\<close>

datatype number = NaN | PosInfinity | NegInfinity | NegZero | Finite rat

datatype jsval =
    JUndefined
  | JNull
  | JBool bool
  | JNum number
  | JStr string
  | JArr "jsval list"
  | JObj "(string \<times> jsval) list"

text \<open>
  What the program can throw: \<^verbatim>\<open>new Error(message)\<close> in the source itself, the
  \<^verbatim>\<open>TypeError\<close> of a coercion that finds no primitive value, and whatever the external search
  client rejects with.
\<close>

datatype error = Error string | TypeError string | LinkupError string

subsection \<open>Rounding to a double\<close>

text \<open>
  \<open>ilog b n\<close> is the number of base-\<open>b\<close> digits of \<open>n\<close>, less one; \<open>floor_log b a\<close> is the
  integer \<open>e\<close> with \<open>b\<^sup>e \<le> a < b\<^sup>e\<^sup>+\<^sup>1\<close>, for a positive rational \<open>a\<close>.
\<close>

function ilog :: "int \<Rightarrow> int \<Rightarrow> nat" where
  "ilog b n = (if b < 2 \<or> n < b then 0 else Suc (ilog b (n div b)))"
  by pat_completeness auto
termination
proof (relation "measure (\<lambda>(b, n). nat n)")
  show "wf (measure (\<lambda>(b, n). nat n))"
    by simp
next
  fix b n :: int
  assume "\<not> (b < 2 \<or> n < b)"
  then have "2 \<le> b" and "b \<le> n"
    by simp_all
  then have "0 < n"
    by simp
  have "n div b < n"
    using \<open>2 \<le> b\<close> \<open>0 < n\<close> by (simp add: int_div_less_self)
  moreover have "0 \<le> n div b"
    using \<open>2 \<le> b\<close> \<open>0 < n\<close> by (simp add: pos_imp_zdiv_nonneg_iff)
  ultimately show "((b, n div b), (b, n)) \<in> measure (\<lambda>(b, n). nat n)"
    by simp
qed

definition floor_log :: "int \<Rightarrow> rat \<Rightarrow> int" where
  "floor_log b a =
     (let k = int (ilog b (fst (quotient_of a))) - int (ilog b (snd (quotient_of a)))
      in if of_int b powi k \<le> a then k else k - 1)"

definition round_half_even :: "rat \<Rightarrow> int" where
  "round_half_even m =
     (let f = \<lfloor>m\<rfloor>; d = m - of_int f
      in if d < 1 / 2 then f else if 1 / 2 < d then f + 1 else if even f then f else f + 1)"

text \<open>
  The double nearest to a positive rational \<open>a\<close>, ties to the even significand. With
  \<open>2\<^sup>e \<le> a < 2\<^sup>e\<^sup>+\<^sup>1\<close>, the doubles around \<open>a\<close> are the multiples of \<open>2\<^sup>p\<close> for
  \<open>p = e - 52\<close> (53 significant bits), and for \<open>p = -1074\<close> when that is larger (the
  subnormal numbers). \<open>None\<close> is overflow: the nearest multiple is \<open>2\<^sup>1\<^sup>0\<^sup>2\<^sup>4\<close> or more, which
  is so when \<open>e\<close> is 1024 or more, and when \<open>e\<close> is 1023 and the significand rounds up to
  \<open>2\<^sup>5\<^sup>3\<close>.
\<close>

definition round_double :: "rat \<Rightarrow> rat option" where
  "round_double a =
     (let e = floor_log 2 a;
          p = max (e - 52) (- 1074);
          m = round_half_even (a / 2 powi p)
      in if 1024 \<le> e \<or> (e = 1023 \<and> m = 2 ^ 53) then None
         else Some (of_int m * 2 powi p))"

text \<open>The number for the mathematical value \<open>\<plusminus>a\<close> (\<open>a\<close> is the magnitude).\<close>

definition to_double :: "bool \<Rightarrow> rat \<Rightarrow> number" where
  "to_double neg a =
     (if a = 0 then (if neg then NegZero else Finite 0)
      else case round_double a of
             None \<Rightarrow> (if neg then NegInfinity else PosInfinity)
           | Some v \<Rightarrow> if v = 0 then (if neg then NegZero else Finite 0)
                      else Finite (if neg then - v else v))"

subsection \<open>Numbers and their text\<close>

text \<open>
  \<^verbatim>\<open>StringToNumber\<close> of ECMAScript: white space is trimmed, the empty string is \<open>+0\<close>, then the
  text is a hexadecimal, octal or binary integer, or an optionally signed decimal literal or
  \<^verbatim>\<open>Infinity\<close>; anything else is \<open>NaN\<close>. The value is rounded to the nearest double (for more
  than twenty significant digits the standard lets an engine round in two steps; the model
  rounds once, as V8 does).
\<close>

definition StrWhiteSpaceChar :: "char \<Rightarrow> bool" where
  "StrWhiteSpaceChar c = (of_char c \<in> set [9, 10, 11, 12, 13, 32, 160 :: nat])"

definition trim :: "string \<Rightarrow> string" where
  "trim s = rev (dropWhile StrWhiteSpaceChar (rev (dropWhile StrWhiteSpaceChar s)))"

definition digit_of :: "char \<Rightarrow> int option" where
  "digit_of c =
     (let n = of_char c :: int
      in if 48 \<le> n \<and> n \<le> 57 then Some (n - 48)
         else if 97 \<le> n \<and> n \<le> 102 then Some (n - 87)
         else if 65 \<le> n \<and> n \<le> 70 then Some (n - 55)
         else None)"

definition is_digit :: "int \<Rightarrow> char \<Rightarrow> bool" where
  "is_digit radix c = (case digit_of c of None \<Rightarrow> False | Some d \<Rightarrow> d < radix)"

definition digits_value :: "int \<Rightarrow> string \<Rightarrow> int" where
  "digits_value radix ds =
     foldl (\<lambda>a c. radix * a + (case digit_of c of None \<Rightarrow> 0 | Some d \<Rightarrow> d)) 0 ds"

definition DecimalDigits :: "string \<Rightarrow> int option" where
  "DecimalDigits ds =
     (if ds \<noteq> [] \<and> list_all (is_digit 10) ds then Some (digits_value 10 ds) else None)"

definition SignedInteger :: "string \<Rightarrow> int option" where
  "SignedInteger ds =
     (case ds of
        [] \<Rightarrow> None
      | c # ds' \<Rightarrow>
          if c = CHR ''+'' then DecimalDigits ds'
          else if c = CHR ''-'' then map_option uminus (DecimalDigits ds')
          else DecimalDigits ds)"

definition ExponentPart :: "string \<Rightarrow> int option" where
  "ExponentPart r =
     (case r of
        [] \<Rightarrow> Some 0
      | c # ds \<Rightarrow> if c = CHR ''e'' \<or> c = CHR ''E'' then SignedInteger ds else None)"

definition StrUnsignedDecimalLiteral :: "string \<Rightarrow> rat option" where
  "StrUnsignedDecimalLiteral s =
     (let ip = takeWhile (is_digit 10) s;
          r1 = dropWhile (is_digit 10) s;
          fp = (case r1 of
                  [] \<Rightarrow> []
                | c # t \<Rightarrow> if c = CHR ''.'' then takeWhile (is_digit 10) t else []);
          r2 = (case r1 of
                  [] \<Rightarrow> []
                | c # t \<Rightarrow> if c = CHR ''.'' then dropWhile (is_digit 10) t else r1)
      in if ip = [] \<and> fp = [] then None
         else case ExponentPart r2 of
                None \<Rightarrow> None
              | Some e \<Rightarrow>
                  Some (of_int (digits_value 10 (ip @ fp)) * 10 powi (e - int (length fp))))"

definition StrDecimalLiteral :: "bool \<Rightarrow> string \<Rightarrow> number" where
  "StrDecimalLiteral neg s =
     (if s = ''Infinity'' then (if neg then NegInfinity else PosInfinity)
      else case StrUnsignedDecimalLiteral s of
             None \<Rightarrow> NaN
           | Some mv \<Rightarrow> to_double neg mv)"

definition NonDecimalIntegerLiteral :: "string \<Rightarrow> int option" where
  "NonDecimalIntegerLiteral s =
     (case s of
        z # x # ds \<Rightarrow>
          (let radix = (if x = CHR ''x'' \<or> x = CHR ''X'' then 16
                        else if x = CHR ''o'' \<or> x = CHR ''O'' then 8
                        else if x = CHR ''b'' \<or> x = CHR ''B'' then 2
                        else 0 :: int)
           in if z = CHR ''0'' \<and> radix \<noteq> 0 \<and> ds \<noteq> [] \<and> list_all (is_digit radix) ds
              then Some (digits_value radix ds) else None)
      | _ \<Rightarrow> None)"

definition StringToNumber :: "string \<Rightarrow> number" where
  "StringToNumber str =
     (let s = trim str
      in case s of
           [] \<Rightarrow> Finite 0
         | c # t \<Rightarrow>
             (case NonDecimalIntegerLiteral s of
                Some n \<Rightarrow> to_double False (of_int n)
              | None \<Rightarrow>
                  if c = CHR ''-'' then StrDecimalLiteral True t
                  else if c = CHR ''+'' then StrDecimalLiteral False t
                  else StrDecimalLiteral False s))"

text \<open>
  \<^verbatim>\<open>Number::toString\<close> in radix 10. For a positive finite \<open>x\<close> it takes the least number \<open>k\<close>
  of digits for which some \<open>s\<close> of \<open>k\<close> digits and some \<open>n\<close> give a decimal \<open>s \<times> 10\<^sup>n\<^sup>-\<^sup>k\<close> that
  rounds to \<open>x\<close>, the nearest such decimal if there are two, and lays the digits out by the
  size of \<open>n\<close>. Seventeen digits always suffice for a double.
\<close>

function decimal :: "int \<Rightarrow> string" where
  "decimal n =
     (if n < 10 then [char_of (48 + n)] else decimal (n div 10) @ [char_of (48 + n mod 10)])"
  by pat_completeness auto
termination
  by (relation "measure nat") auto

definition candidates :: "rat \<Rightarrow> nat \<Rightarrow> (int \<times> int) list" where
  "candidates x k =
     (let n = floor_log 10 x + 1;
          lo = \<lfloor>x / 10 powi (n - int k)\<rfloor>;
          hi = lo + 1;
          both = [(n, lo), (if hi = 10 ^ k then (n + 1, 10 ^ (k - 1)) else (n, hi))]
      in filter (\<lambda>(n, s). round_double (of_int s * 10 powi (n - int k)) = Some x) both)"

definition closest :: "rat \<Rightarrow> nat \<Rightarrow> (int \<times> int) list \<Rightarrow> (int \<times> int) option" where
  "closest x k cs =
     (case cs of
        [] \<Rightarrow> None
      | [c] \<Rightarrow> Some c
      | (n, s) # (n', s') # _ \<Rightarrow>
          (let d = \<bar>of_int s * 10 powi (n - int k) - x\<bar>;
               d' = \<bar>of_int s' * 10 powi (n' - int k) - x\<bar>
           in if d < d' then Some (n, s)
              else if d' < d then Some (n', s')
              else if even s then Some (n, s) else Some (n', s')))"

fun shortest :: "rat \<Rightarrow> nat \<Rightarrow> nat \<Rightarrow> int \<times> nat \<times> int" where
  "shortest x k 0 =
     (floor_log 10 x + 1, k, \<lfloor>x / 10 powi (floor_log 10 x + 1 - int k)\<rfloor>)"
| "shortest x k (Suc fuel) =
     (case closest x k (candidates x k) of
        Some (n, s) \<Rightarrow> (n, k, s)
      | None \<Rightarrow> shortest x (Suc k) fuel)"

definition layout :: "int \<Rightarrow> nat \<Rightarrow> string \<Rightarrow> string" where
  "layout n k ds =
     (if int k \<le> n \<and> n \<le> 21 then ds @ replicate (nat n - k) CHR ''0''
      else if 0 < n \<and> n \<le> 21 then take (nat n) ds @ ''.'' @ drop (nat n) ds
      else if - 6 < n \<and> n \<le> 0 then ''0.'' @ replicate (nat (- n)) CHR ''0'' @ ds
      else (if k = 1 then ds else take 1 ds @ ''.'' @ drop 1 ds)
           @ ''e'' @ (if 0 \<le> n - 1 then ''+'' else ''-'') @ decimal \<bar>n - 1\<bar>)"

definition positive_to_string :: "rat \<Rightarrow> string" where
  "positive_to_string x = (case shortest x 1 17 of (n, k, s) \<Rightarrow> layout n k (decimal s))"

fun NumberToString :: "number \<Rightarrow> string" where
  "NumberToString NaN = ''NaN''"
| "NumberToString PosInfinity = ''Infinity''"
| "NumberToString NegInfinity = ''-Infinity''"
| "NumberToString NegZero = ''0''"
| "NumberToString (Finite q) =
     (if q = 0 then ''0''
      else if q < 0 then ''-'' @ positive_to_string (- q)
      else positive_to_string q)"

subsection \<open>Coercions\<close>

text \<open>
  \<^verbatim>\<open>ToString\<close>. An array is joined with commas, \<^verbatim>\<open>undefined\<close> and \<^verbatim>\<open>null\<close> elements
  giving the empty string; the first element that throws ends the join.

  For an object the language looks for a primitive value (\<^verbatim>\<open>OrdinaryToPrimitive\<close>): it
  calls the object's \<^verbatim>\<open>toString\<close> and then its \<^verbatim>\<open>valueOf\<close>, passing over the one that is
  not callable, and throws a \<^verbatim>\<open>TypeError\<close> when neither has returned a primitive value. A
  plain object inherits \<^verbatim>\<open>Object.prototype.toString\<close>, which returns
  \<^verbatim>\<open>[object Object]\<close>. An own property named \<^verbatim>\<open>toString\<close> hides the inherited method;
  its value was decoded from JSON, so it is not callable; \<^verbatim>\<open>valueOf\<close> is then not callable
  either, or is the inherited one, which returns the object itself; so the coercion throws.
\<close>

fun join :: "(error + string) list \<Rightarrow> error + string" where
  "join [] = Inr []"
| "join [r] = r"
| "join (r # rs) =
     (case r of
        Inl e \<Rightarrow> Inl e
      | Inr s \<Rightarrow> (case join rs of Inl e \<Rightarrow> Inl e | Inr t \<Rightarrow> Inr (s @ '','' @ t)))"

fun ToString :: "jsval \<Rightarrow> error + string" where
  "ToString JUndefined = Inr ''undefined''"
| "ToString JNull = Inr ''null''"
| "ToString (JBool b) = Inr (if b then ''true'' else ''false'')"
| "ToString (JNum n) = Inr (NumberToString n)"
| "ToString (JStr s) = Inr s"
| "ToString (JArr xs) =
     join (map (\<lambda>x. if x = JUndefined \<or> x = JNull then Inr [] else ToString x) xs)"
| "ToString (JObj ps) =
     (case map_of ps ''toString'' of
        Some f \<Rightarrow> Inl (TypeError ''Cannot convert object to primitive value'')
      | None \<Rightarrow> Inr ''[object Object]'')"

text \<open>
  \<^verbatim>\<open>ToNumber\<close>. For an array or an object the primitive value is looked for with
  \<^verbatim>\<open>valueOf\<close> first, which returns the object itself, and then with \<^verbatim>\<open>toString\<close>: the
  number is that of the string, and the coercion throws where \<^verbatim>\<open>ToString\<close> does.
\<close>

fun ToNumber :: "jsval \<Rightarrow> error + number" where
  "ToNumber JUndefined = Inr NaN"
| "ToNumber JNull = Inr (Finite 0)"
| "ToNumber (JBool b) = Inr (Finite (if b then 1 else 0))"
| "ToNumber (JNum n) = Inr n"
| "ToNumber (JStr s) = Inr (StringToNumber s)"
| "ToNumber v = (case ToString v of Inl e \<Rightarrow> Inl e | Inr s \<Rightarrow> Inr (StringToNumber s))"

fun ToBoolean :: "jsval \<Rightarrow> bool" where
  "ToBoolean JUndefined = False"
| "ToBoolean JNull = False"
| "ToBoolean (JBool b) = b"
| "ToBoolean (JNum n) = (n \<noteq> NaN \<and> n \<noteq> NegZero \<and> n \<noteq> Finite 0)"
| "ToBoolean (JStr s) = (s \<noteq> [])"
| "ToBoolean (JArr xs) = True"
| "ToBoolean (JObj ps) = True"

text \<open>
  The calls \<^verbatim>\<open>String(v)\<close> and \<^verbatim>\<open>Number(v)\<close> with an argument are the two coercions (no
  value of the model is a symbol or a big integer), and \<^verbatim>\<open>a || b\<close> is \<open>a\<close> when \<open>a\<close> is
  truthy, \<open>b\<close> otherwise.
\<close>

definition js_String :: "jsval \<Rightarrow> error + string" where
  "js_String v = ToString v"

definition js_Number :: "jsval \<Rightarrow> error + number" where
  "js_Number v = ToNumber v"

definition js_or :: "jsval \<Rightarrow> jsval \<Rightarrow> jsval" where
  "js_or a b = (if ToBoolean a then a else b)"

subsection \<open>JSON text\<close>

text \<open>
  \<^verbatim>\<open>JSON.stringify(value, null, space)\<close> with a numeric \<open>space\<close>: \<open>gap\<close> is that many
  blanks, ten at most. \<^verbatim>\<open>undefined\<close> has no JSON text (\<open>None\<close>): it is left out of an
  object, and \<^verbatim>\<open>null\<close> in an array. A number that is not finite is \<^verbatim>\<open>null\<close>.
\<close>

definition hex_digit :: "nat \<Rightarrow> char" where
  "hex_digit n = (if n < 10 then char_of (48 + n) else char_of (87 + n))"

definition QuoteJSONChar :: "char \<Rightarrow> string" where
  "QuoteJSONChar c =
     (let n = of_char c :: nat
      in if n = 8 then [CHR 0x5C, CHR ''b'']
         else if n = 9 then [CHR 0x5C, CHR ''t'']
         else if n = 10 then [CHR 0x5C, CHR ''n'']
         else if n = 12 then [CHR 0x5C, CHR ''f'']
         else if n = 13 then [CHR 0x5C, CHR ''r'']
         else if n = 34 then [CHR 0x5C, CHR 0x22]
         else if n = 92 then [CHR 0x5C, CHR 0x5C]
         else if n < 32 then [CHR 0x5C, CHR ''u'', CHR ''0'', CHR ''0'',
                              hex_digit (n div 16), hex_digit (n mod 16)]
         else [c])"

definition QuoteJSONString :: "string \<Rightarrow> string" where
  "QuoteJSONString s = [CHR 0x22] @ concat (map QuoteJSONChar s) @ [CHR 0x22]"

fun separated :: "string \<Rightarrow> string list \<Rightarrow> string" where
  "separated sep [] = []"
| "separated sep [x] = x"
| "separated sep (x # xs) = x @ sep @ separated sep xs"

definition wrap :: "string \<Rightarrow> string \<Rightarrow> string \<Rightarrow> string \<Rightarrow> string list \<Rightarrow> string" where
  "wrap opening closing gap stepback partial =
     (if partial = [] then opening @ closing
      else if gap = [] then opening @ separated '','' partial @ closing
      else opening @ [CHR 0x0A] @ (stepback @ gap)
           @ separated ('','' @ [CHR 0x0A] @ (stepback @ gap)) partial
           @ [CHR 0x0A] @ stepback @ closing)"

fun SerializeJSONProperty :: "string \<Rightarrow> string \<Rightarrow> jsval \<Rightarrow> string option" where
  "SerializeJSONProperty gap indent JUndefined = None"
| "SerializeJSONProperty gap indent JNull = Some ''null''"
| "SerializeJSONProperty gap indent (JBool b) = Some (if b then ''true'' else ''false'')"
| "SerializeJSONProperty gap indent (JNum n) =
     Some (if n = NaN \<or> n = PosInfinity \<or> n = NegInfinity then ''null''
           else NumberToString n)"
| "SerializeJSONProperty gap indent (JStr s) = Some (QuoteJSONString s)"
| "SerializeJSONProperty gap indent (JArr xs) =
     Some (wrap ''['' '']'' gap indent
       (map (\<lambda>x. case SerializeJSONProperty gap (indent @ gap) x of
                   None \<Rightarrow> ''null''
                 | Some t \<Rightarrow> t) xs))"
| "SerializeJSONProperty gap indent (JObj ps) =
     Some (wrap ''{'' ''}'' gap indent
       (concat (map (\<lambda>p. case SerializeJSONProperty gap (indent @ gap) (snd p) of
                            None \<Rightarrow> []
                          | Some t \<Rightarrow>
                              [QuoteJSONString (fst p) @ '':''
                               @ (if gap = [] then [] else '' '') @ t]) ps)))"

definition JSON_stringify :: "jsval \<Rightarrow> nat \<Rightarrow> string option" where
  "JSON_stringify v space = SerializeJSONProperty (replicate (min 10 space) CHR '' '') [] v"

section \<open>The adapter\<close>

subsection \<open>Start-up\<close>

text \<open>
  \<^verbatim>\<open>process.env\<close> maps names to strings; reading a name that is not set gives
  \<^verbatim>\<open>undefined\<close>. \<open>env\<close> is the environment as the module finds it, after the import of
  \<^verbatim>\<open>dotenv/config\<close> has added what a \<^verbatim>\<open>.env\<close> file sets. The module throws at load time
  when \<^verbatim>\<open>!process.env.LINKUP_API_KEY\<close>, and constructs the client otherwise.
\<close>

record LinkupClient =
  apiKey :: jsval

definition process_env :: "(string \<rightharpoonup> string) \<Rightarrow> string \<Rightarrow> jsval" where
  "process_env env k = (case env k of None \<Rightarrow> JUndefined | Some s \<Rightarrow> JStr s)"

definition ConfigurationError :: error where
  "ConfigurationError = Error ''LINKUP_API_KEY environment variable is required''"

definition startup :: "(string \<rightharpoonup> string) \<Rightarrow> error + LinkupClient" where
  "startup env =
     (if \<not> ToBoolean (process_env env ''LINKUP_API_KEY'') then Inl ConfigurationError
      else Inr \<lparr>apiKey = process_env env ''LINKUP_API_KEY''\<rparr>)"

subsection \<open>Listing the tools\<close>

text \<open>The handler takes no parameter: whatever the request holds, it returns this literal.\<close>

definition ListToolsRequest_handler :: "jsval \<Rightarrow> jsval" where
  "ListToolsRequest_handler request =
     JObj [(''tools'', JArr [
       JObj [
         (''name'', JStr ''deep_search''),
         (''description'', JStr ''Perform a deep web search using LinkUp API''),
         (''inputSchema'', JObj [
           (''type'', JStr ''object''),
           (''properties'', JObj [
             (''query'', JObj [
               (''type'', JStr ''string''),
               (''description'', JStr ''Search query'')]),
             (''max_results'', JObj [
               (''type'', JStr ''number''),
               (''default'', JNum (Finite 5)),
               (''description'', JStr ''Maximum number of results to return'')])]),
           (''required'', JArr [JStr ''query''])])]])]"

subsection \<open>Calling a tool\<close>

record CallToolRequest =
  name :: string
  arguments :: "(string \<rightharpoonup> jsval) option"

record SearchParams =
  query :: string
  depth :: string
  outputType :: string
  includeImages :: bool

record ContentBlock =
  "type" :: string
  "text" :: "string option"

record CallToolResult =
  content :: "ContentBlock list"

text \<open>\<^verbatim>\<open>request.params.arguments?.k\<close>: \<^verbatim>\<open>undefined\<close> without arguments or without the key.\<close>

definition get_arg :: "(string \<rightharpoonup> jsval) option \<Rightarrow> string \<Rightarrow> jsval" where
  "get_arg args k =
     (case args of
        None \<Rightarrow> JUndefined
      | Some m \<Rightarrow> (case m k of None \<Rightarrow> JUndefined | Some v \<Rightarrow> v))"

definition UnknownTool :: error where
  "UnknownTool = Error ''Unknown tool''"

definition InvalidArgument :: error where
  "InvalidArgument = Error ''Search query is required''"

text \<open>\<^verbatim>\<open>Number(request.params.arguments?.max_results) || 5\<close>\<close>

definition maxResults :: "(string \<rightharpoonup> jsval) option \<Rightarrow> error + jsval" where
  "maxResults args =
     (case js_Number (get_arg args ''max_results'') of
        Inl e \<Rightarrow> Inl e
      | Inr n \<Rightarrow> Inr (js_or (JNum n) (JNum (Finite 5))))"

text \<open>
  The handler, with the \<^verbatim>\<open>search\<close> method of the client as a parameter. It returns what the
  \<^verbatim>\<open>async\<close> function settles with (\<open>Inl\<close> is a rejection) and the requests it sent to the
  external search, in order. The statements run in the order of the source: the two
  coercions, the check of the query, the search, the result.
\<close>

definition CallToolRequest_handler ::
  "(SearchParams \<Rightarrow> error + jsval) \<Rightarrow> CallToolRequest
     \<Rightarrow> (error + CallToolResult) \<times> SearchParams list" where
  "CallToolRequest_handler search request =
     (if name request = ''deep_search'' then
        (case js_String (get_arg (arguments request) ''query'') of
           Inl e \<Rightarrow> (Inl e, [])
         | Inr query' \<Rightarrow>
             (case maxResults (arguments request) of
                Inl e \<Rightarrow> (Inl e, [])
              | Inr maxResults' \<Rightarrow>
                  if \<not> ToBoolean (JStr query') then (Inl InvalidArgument, [])
                  else
                    (let params = \<lparr>query = query', depth = ''deep'',
                                    outputType = ''sourcedAnswer'', includeImages = False\<rparr>
                     in case search params of
                          Inl e \<Rightarrow> (Inl e, [params])
                        | Inr results \<Rightarrow>
                            (Inr \<lparr>content = [\<lparr>type = ''text'',
                                               text = JSON_stringify results 2\<rparr>]\<rparr>,
                             [params]))))
      else (Inl UnknownTool, []))"

subsection \<open>The process\<close>

text \<open>
  What the process does, as a trace: it loads the module, and if that does not throw, the
  transport hands each incoming request to the handler registered for it and sends back
  what the handler settles with. \<open>linkup\<close> is the external search service behind a client.
\<close>

datatype request = ListTools jsval | CallTool CallToolRequest

datatype response = ListToolsResult jsval | CallToolResponse "error + CallToolResult"

datatype event = Constructed LinkupClient | Searched SearchParams | Responded response

fun serve :: "(SearchParams \<Rightarrow> error + jsval) \<Rightarrow> request \<Rightarrow> event list" where
  "serve search (ListTools r) = [Responded (ListToolsResult (ListToolsRequest_handler r))]"
| "serve search (CallTool r) =
     (case CallToolRequest_handler search r of
        (outcome, calls) \<Rightarrow> map Searched calls @ [Responded (CallToolResponse outcome)])"

definition run ::
  "(LinkupClient \<Rightarrow> SearchParams \<Rightarrow> error + jsval) \<Rightarrow> (string \<rightharpoonup> string) \<Rightarrow> request list
     \<Rightarrow> error option \<times> event list" where
  "run linkup env requests =
     (case startup env of
        Inl e \<Rightarrow> (Some e, [])
      | Inr linkupClient \<Rightarrow>
          (None, Constructed linkupClient # concat (map (serve (linkup linkupClient)) requests)))"

subsection \<open>What an input schema accepts\<close>

text \<open>
  The tool descriptor carries a JSON Schema. \<open>validates schema instance\<close> is JSON Schema
  validation for the keywords \<^verbatim>\<open>type\<close>, \<^verbatim>\<open>properties\<close>, \<^verbatim>\<open>required\<close> and \<^verbatim>\<open>minLength\<close>;
  \<^verbatim>\<open>description\<close> and \<^verbatim>\<open>default\<close> are annotations and constrain nothing. The schema of the
  source uses no other keyword.
\<close>

definition is_integer :: "number \<Rightarrow> bool" where
  "is_integer n = (case n of Finite q \<Rightarrow> of_int \<lfloor>q\<rfloor> = q | NegZero \<Rightarrow> True | _ \<Rightarrow> False)"

definition has_type :: "string \<Rightarrow> jsval \<Rightarrow> bool" where
  "has_type t v =
     (case v of
        JUndefined \<Rightarrow> False
      | JNull \<Rightarrow> t = ''null''
      | JBool b \<Rightarrow> t = ''boolean''
      | JNum n \<Rightarrow> t = ''number'' \<or> (t = ''integer'' \<and> is_integer n)
      | JStr s \<Rightarrow> t = ''string''
      | JArr xs \<Rightarrow> t = ''array''
      | JObj ps \<Rightarrow> t = ''object'')"

definition has_properties :: "jsval \<Rightarrow> jsval \<Rightarrow> bool" where
  "has_properties required instance =
     (case (required, instance) of
        (JArr ks, JObj ps) \<Rightarrow>
          list_all (\<lambda>k. case k of JStr key \<Rightarrow> map_of ps key \<noteq> None | _ \<Rightarrow> True) ks
      | _ \<Rightarrow> True)"

definition has_minLength :: "jsval \<Rightarrow> jsval \<Rightarrow> bool" where
  "has_minLength m instance =
     (case (m, instance) of
        (JNum (Finite q), JStr s) \<Rightarrow> q \<le> of_nat (length s)
      | _ \<Rightarrow> True)"

fun validates :: "jsval \<Rightarrow> jsval \<Rightarrow> bool" where
  "validates (JObj keywords) instance =
     list_all (\<lambda>kw.
       if fst kw = ''type'' then (case snd kw of JStr t \<Rightarrow> has_type t instance | _ \<Rightarrow> True)
       else if fst kw = ''required'' then has_properties (snd kw) instance
       else if fst kw = ''minLength'' then has_minLength (snd kw) instance
       else if fst kw = ''properties'' then
         (case snd kw of
            JObj subschemas \<Rightarrow>
              list_all (\<lambda>sub.
                case instance of
                  JObj ps \<Rightarrow>
                    (case map_of ps (fst sub) of
                       None \<Rightarrow> True
                     | Some v \<Rightarrow> validates (snd sub) v)
                | _ \<Rightarrow> True) subschemas
          | _ \<Rightarrow> True)
       else True) keywords"
| "validates (JBool b) instance = b"
| "validates schema instance = True"

text \<open>Reading a property of a value: \<^verbatim>\<open>undefined\<close> when there is none.\<close>

definition get :: "jsval \<Rightarrow> string \<Rightarrow> jsval" where
  "get v k =
     (case v of
        JObj ps \<Rightarrow> (case map_of ps k of None \<Rightarrow> JUndefined | Some x \<Rightarrow> x)
      | _ \<Rightarrow> JUndefined)"

definition tools_of :: "jsval \<Rightarrow> jsval list" where
  "tools_of v = (case get v ''tools'' of JArr xs \<Rightarrow> xs | _ \<Rightarrow> [])"

text \<open>An argument is absent when there are no arguments or the key is not among them.\<close>

definition absent :: "(string \<rightharpoonup> jsval) option \<Rightarrow> string \<Rightarrow> bool" where
  "absent args k = (case args of None \<Rightarrow> True | Some m \<Rightarrow> m k = None)"

text \<open>The clients a trace constructs.\<close>

fun constructions :: "event list \<Rightarrow> LinkupClient list" where
  "constructions [] = []"
| "constructions (Constructed c # es) = c # constructions es"
| "constructions (e # es) = constructions es"

subsection \<open>Two external search services to run the adapter against\<close>

definition sample_results :: jsval where
  "sample_results =
     JObj [(''answer'', JStr ''Paris''),
           (''sources'', JArr [JObj [(''name'', JStr ''Atlas''),
                                      (''url'', JStr ''https://example.org/fr''),
                                      (''snippet'', JStr ''Paris is the capital.'')]])]"

definition answering :: "LinkupClient \<Rightarrow> SearchParams \<Rightarrow> error + jsval" where
  "answering client params = Inr sample_results"

definition failing :: "LinkupClient \<Rightarrow> SearchParams \<Rightarrow> error + jsval" where
  "failing client params = Inl (LinkupError ''fetch failed'')"

section \<open>Properties\<close>

subsection \<open>The coercions on some values\<close>

text \<open>
  The conversions of the first section on values for which the results of the language are
  well known, computed from the definitions.
\<close>

lemma StringToNumber_examples:
  "StringToNumber [] = Finite 0"
  "StringToNumber ''  12 '' = Finite 12"
  "StringToNumber ''0x1F'' = Finite 31"
  "StringToNumber ''1e3'' = Finite 1000"
  "StringToNumber ''-0'' = NegZero"
  "StringToNumber ''.5'' = Finite (1 / 2)"
  "StringToNumber ''12px'' = NaN"
  "StringToNumber ''-Infinity'' = NegInfinity"
  by code_simp+

lemma NumberToString_examples:
  "NumberToString (Finite 5) = ''5''"
  "NumberToString (Finite (- 3 / 2)) = ''-1.5''"
  "NumberToString (Finite (1 / 4)) = ''0.25''"
  "NumberToString (Finite 1200) = ''1200''"
  "NumberToString NegZero = ''0''"
  by code_simp+

lemma ToString_examples:
  "ToString (JArr [JNum (Finite 1), JArr [JStr ''a'', JUndefined], JObj []])
     = Inr ''1,a,,[object Object]''"
  "ToString (JArr [JNull]) = Inr []"
  "ToString (JObj [(''toString'', JNum (Finite 0))])
     = Inl (TypeError ''Cannot convert object to primitive value'')"
  by code_simp+

lemma ToNumber_examples:
  "ToNumber (JArr []) = Inr (Finite 0)"
  "ToNumber (JArr [JStr ''7'']) = Inr (Finite 7)"
  "ToNumber (JObj []) = Inr NaN"
  "ToNumber (JBool True) = Inr (Finite 1)"
  by code_simp+

lemma JSON_stringify_examples:
  "JSON_stringify (JObj [(''a'', JArr [JNum (Finite 1), JUndefined]), (''b'', JUndefined)]) 0
     = Some (''{'' @ [CHR 0x22] @ ''a'' @ [CHR 0x22] @ '':[1,null]}'')"
  "JSON_stringify (JArr [JStr ''x'']) 2
     = Some (''['' @ [CHR 0x0A] @ ''  '' @ [CHR 0x22] @ ''x'' @ [CHR 0x22] @ [CHR 0x0A] @ '']'')"
  "JSON_stringify JUndefined 2 = None"
  by code_simp+

subsection \<open>The paths through the call handler\<close>

lemma get_arg_absent: "absent args k \<Longrightarrow> get_arg args k = JUndefined"
  by (simp add: absent_def get_arg_def split: option.splits)

lemma handler_unknown:
  "name r \<noteq> ''deep_search'' \<Longrightarrow> CallToolRequest_handler search r = (Inl UnknownTool, [])"
  by (simp add: CallToolRequest_handler_def)

lemma handler_coercion_throws:
  "name r = ''deep_search'' \<Longrightarrow>
   js_String (get_arg (arguments r) ''query'') = Inr s \<Longrightarrow>
   js_Number (get_arg (arguments r) ''max_results'') = Inl e \<Longrightarrow>
   CallToolRequest_handler search r = (Inl e, [])"
  by (simp add: CallToolRequest_handler_def maxResults_def)

lemma handler_empty_query:
  "name r = ''deep_search'' \<Longrightarrow>
   js_String (get_arg (arguments r) ''query'') = Inr [] \<Longrightarrow>
   js_Number (get_arg (arguments r) ''max_results'') = Inr n \<Longrightarrow>
   CallToolRequest_handler search r = (Inl InvalidArgument, [])"
  by (simp add: CallToolRequest_handler_def maxResults_def)

lemma handler_searches:
  "name r = ''deep_search'' \<Longrightarrow>
   js_String (get_arg (arguments r) ''query'') = Inr s \<Longrightarrow> s \<noteq> [] \<Longrightarrow>
   js_Number (get_arg (arguments r) ''max_results'') = Inr n \<Longrightarrow>
   CallToolRequest_handler search r =
     (case search \<lparr>query = s, depth = ''deep'', outputType = ''sourcedAnswer'',
                   includeImages = False\<rparr> of
        Inl e \<Rightarrow> Inl e
      | Inr results \<Rightarrow> Inr \<lparr>content = [\<lparr>type = ''text'', text = JSON_stringify results 2\<rparr>]\<rparr>,
      [\<lparr>query = s, depth = ''deep'', outputType = ''sourcedAnswer'', includeImages = False\<rparr>])"
  by (simp add: CallToolRequest_handler_def maxResults_def Let_def split: sum.splits)

lemma handler_calls:
  "snd (CallToolRequest_handler search r) = [] \<or>
   (\<exists>s. js_String (get_arg (arguments r) ''query'') = Inr s \<and>
        snd (CallToolRequest_handler search r) =
          [\<lparr>query = s, depth = ''deep'', outputType = ''sourcedAnswer'',
            includeImages = False\<rparr>])"
  by (simp add: CallToolRequest_handler_def Let_def split: sum.splits)

lemma stringify_defined: "v \<noteq> JUndefined \<Longrightarrow> \<exists>t. JSON_stringify v space = Some t"
  by (cases v) (simp_all add: JSON_stringify_def)

subsection \<open>The trace of a process\<close>

lemma constructions_append: "constructions (xs @ ys) = constructions xs @ constructions ys"
  by (induction xs rule: constructions.induct) simp_all

lemma constructions_Searched: "constructions (map Searched ps) = []"
  by (induction ps) simp_all

lemma constructions_serve: "constructions (serve search r) = []"
  by (cases r) (simp_all add: constructions_append constructions_Searched split: prod.splits)

lemma constructions_served: "constructions (concat (map (serve search) rs)) = []"
  by (induction rs) (simp_all add: constructions_append constructions_serve)

lemma startup_fails:
  "env ''LINKUP_API_KEY'' = None \<or> env ''LINKUP_API_KEY'' = Some [] \<Longrightarrow>
   startup env = Inl ConfigurationError"
  by (auto simp add: startup_def process_env_def)

lemma startup_succeeds:
  "env ''LINKUP_API_KEY'' = Some k \<Longrightarrow> k \<noteq> [] \<Longrightarrow> startup env = Inr \<lparr>apiKey = JStr k\<rparr>"
  by (simp add: startup_def process_env_def)

subsection \<open>A call without a query\<close>

text \<open>
  Claim C1 says that a \<^verbatim>\<open>deep_search\<close> call without a \<^verbatim>\<open>query\<close> argument, or without
  arguments, has the empty string as its coerced query, fails with InvalidArgument and
  searches nothing. The code does not behave so: \<^verbatim>\<open>String(undefined)\<close> is the nine
  characters \<^verbatim>\<open>undefined\<close>, which \<^verbatim>\<open>!query\<close> lets through, so the call searches for that
  word and returns what the search gives. Evaluated on both requests, against a service
  that answers:
\<close>

theorem missing_query_is_searched:
  "CallToolRequest_handler (answering \<lparr>apiKey = JStr ''key''\<rparr>)
     \<lparr>name = ''deep_search'', arguments = Some Map.empty\<rparr> =
     (Inr \<lparr>content = [\<lparr>type = ''text'', text = JSON_stringify sample_results 2\<rparr>]\<rparr>,
      [\<lparr>query = ''undefined'', depth = ''deep'', outputType = ''sourcedAnswer'',
        includeImages = False\<rparr>])
   \<and> CallToolRequest_handler (answering \<lparr>apiKey = JStr ''key''\<rparr>)
     \<lparr>name = ''deep_search'', arguments = None\<rparr> =
     (Inr \<lparr>content = [\<lparr>type = ''text'', text = JSON_stringify sample_results 2\<rparr>]\<rparr>,
      [\<lparr>query = ''undefined'', depth = ''deep'', outputType = ''sourcedAnswer'',
        includeImages = False\<rparr>])"
  by (simp add: CallToolRequest_handler_def maxResults_def get_arg_def js_String_def
      js_Number_def js_or_def answering_def)

text \<open>
  Claim C9, as amended: for every \<^verbatim>\<open>deep_search\<close> call whose \<^verbatim>\<open>query\<close> argument is absent
  (or whose arguments are absent) and whose \<^verbatim>\<open>max_results\<close> argument has a numeric coercion
  that returns, the string coercion of the query yields \<^verbatim>\<open>undefined\<close> as a string, the
  check of the query passes, and exactly one external search is made, with that string as
  its query. The condition on \<^verbatim>\<open>max_results\<close> is needed: its coercion runs before the
  search and can throw.
\<close>

theorem absent_query_searches_undefined:
  "name r = ''deep_search'' \<Longrightarrow> absent (arguments r) ''query'' \<Longrightarrow>
   js_Number (get_arg (arguments r) ''max_results'') = Inr n \<Longrightarrow>
   js_String (get_arg (arguments r) ''query'') = Inr ''undefined''
   \<and> snd (CallToolRequest_handler search r) =
       [\<lparr>query = ''undefined'', depth = ''deep'', outputType = ''sourcedAnswer'',
         includeImages = False\<rparr>]"
proof -
  assume n: "name r = ''deep_search''" and a: "absent (arguments r) ''query''"
    and m: "js_Number (get_arg (arguments r) ''max_results'') = Inr n"
  have q: "js_String (get_arg (arguments r) ''query'') = Inr ''undefined''"
    using a by (simp add: get_arg_absent js_String_def)
  show ?thesis
    using q handler_searches [OF n q _ m] by simp
qed

theorem absent_query_searches_undefined_witness:
  "name \<lparr>name = ''deep_search'', arguments = None\<rparr> = ''deep_search''
   \<and> absent None ''query''
   \<and> js_Number (get_arg None ''max_results'') = Inr NaN
   \<and> js_String (get_arg None ''query'') = Inr ''undefined''
   \<and> snd (CallToolRequest_handler (answering \<lparr>apiKey = JStr ''key''\<rparr>)
            \<lparr>name = ''deep_search'', arguments = None\<rparr>) =
       [\<lparr>query = ''undefined'', depth = ''deep'', outputType = ''sourcedAnswer'',
         includeImages = False\<rparr>]"
  using absent_query_searches_undefined
    [of "\<lparr>name = ''deep_search'', arguments = None\<rparr>" NaN
        "answering \<lparr>apiKey = JStr ''key''\<rparr>"]
  by (simp add: absent_def get_arg_def js_Number_def)

text \<open>
  C9 as it is written fails on the arguments \<^verbatim>\<open>{"max_results": {"toString": 0}}\<close>: the
  query is absent, and the call ends with the \<^verbatim>\<open>TypeError\<close> of \<^verbatim>\<open>Number(...)\<close> without
  searching.
\<close>

theorem absent_query_no_search_counterexample:
  "absent (Some [''max_results'' \<mapsto> JObj [(''toString'', JNum (Finite 0))]]) ''query''
   \<and> CallToolRequest_handler (answering \<lparr>apiKey = JStr ''key''\<rparr>)
        \<lparr>name = ''deep_search'',
         arguments = Some [''max_results'' \<mapsto> JObj [(''toString'', JNum (Finite 0))]]\<rparr> =
      (Inl (TypeError ''Cannot convert object to primitive value''), [])"
  by (simp add: absent_def CallToolRequest_handler_def maxResults_def get_arg_def js_String_def
      js_Number_def)

subsection \<open>An empty query\<close>

text \<open>
  Claim C2, as amended: every \<^verbatim>\<open>deep_search\<close> call whose \<^verbatim>\<open>query\<close> argument coerces to the
  empty string fails before any external search is made. The error is InvalidArgument
  whenever the numeric coercion of \<^verbatim>\<open>max_results\<close> returns; that coercion runs before the
  query is checked, and when it throws, its error is the one the call fails with.
\<close>

theorem empty_query_fails_before_search:
  "name r = ''deep_search'' \<Longrightarrow>
   js_String (get_arg (arguments r) ''query'') = Inr [] \<Longrightarrow>
   CallToolRequest_handler search r =
     (case js_Number (get_arg (arguments r) ''max_results'') of
        Inl e \<Rightarrow> Inl e
      | Inr n \<Rightarrow> Inl InvalidArgument,
      [])"
  by (cases "js_Number (get_arg (arguments r) ''max_results'')")
     (simp_all add: handler_coercion_throws handler_empty_query)

theorem empty_query_fails_before_search_witness:
  "name \<lparr>name = ''deep_search'', arguments = Some [''query'' \<mapsto> JStr []]\<rparr> = ''deep_search''
   \<and> js_String (get_arg (Some [''query'' \<mapsto> JStr []]) ''query'') = Inr []
   \<and> CallToolRequest_handler (answering \<lparr>apiKey = JStr ''key''\<rparr>)
        \<lparr>name = ''deep_search'', arguments = Some [''query'' \<mapsto> JStr []]\<rparr> =
      (Inl InvalidArgument, [])"
  using empty_query_fails_before_search
    [of "\<lparr>name = ''deep_search'', arguments = Some [''query'' \<mapsto> JStr []]\<rparr>"
        "answering \<lparr>apiKey = JStr ''key''\<rparr>"]
  by (simp add: get_arg_def js_String_def js_Number_def)

text \<open>
  C2 as it is written fails on \<^verbatim>\<open>{"query": "", "max_results": {"toString": 0}}\<close>: the
  query coerces to the empty string and the call fails with a \<^verbatim>\<open>TypeError\<close>, not with
  InvalidArgument.
\<close>

theorem empty_query_TypeError_counterexample:
  "js_String (get_arg (Some [''query'' \<mapsto> JStr [],
       ''max_results'' \<mapsto> JObj [(''toString'', JNum (Finite 0))]]) ''query'') = Inr []
   \<and> CallToolRequest_handler (answering \<lparr>apiKey = JStr ''key''\<rparr>)
        \<lparr>name = ''deep_search'',
         arguments = Some [''query'' \<mapsto> JStr [],
           ''max_results'' \<mapsto> JObj [(''toString'', JNum (Finite 0))]]\<rparr> =
      (Inl (TypeError ''Cannot convert object to primitive value''), [])
   \<and> TypeError ''Cannot convert object to primitive value'' \<noteq> InvalidArgument"
  by (simp add: CallToolRequest_handler_def maxResults_def get_arg_def js_String_def
      js_Number_def InvalidArgument_def)

subsection \<open>The default of \<^verbatim>\<open>max_results\<close>\<close>

text \<open>
  Claim C3, as amended: in every \<^verbatim>\<open>deep_search\<close> call in which the numeric coercion of
  the \<^verbatim>\<open>max_results\<close> argument returns, the coerced \<^verbatim>\<open>max_results\<close> is the default 5
  when the argument is absent and when its numeric coercion is \<^verbatim>\<open>NaN\<close>, \<open>+0\<close> or \<open>-0\<close>,
  the falsy numbers; otherwise it is the numeric coercion of the argument. What decides is
  the coercion and not the type of the argument: a value that is not a number gets the
  default only when it coerces to one of those three. When the coercion throws, the
  expression throws the same error and there is no coerced value.
\<close>

theorem maxResults_default:
  "(absent args ''max_results'' \<longrightarrow> maxResults args = Inr (JNum (Finite 5)))
   \<and> (\<forall>n. js_Number (get_arg args ''max_results'') = Inr n \<longrightarrow>
          maxResults args =
            Inr (JNum (if n = NaN \<or> n = Finite 0 \<or> n = NegZero then Finite 5 else n)))
   \<and> (\<forall>e. js_Number (get_arg args ''max_results'') = Inl e \<longrightarrow> maxResults args = Inl e)"
  by (auto simp add: maxResults_def js_or_def js_Number_def get_arg_absent)

theorem maxResults_default_witness:
  "absent (Some Map.empty) ''max_results''
   \<and> maxResults (Some Map.empty) = Inr (JNum (Finite 5))
   \<and> js_Number (get_arg (Some [''max_results'' \<mapsto> JStr ''abc'']) ''max_results'') = Inr NaN
   \<and> maxResults (Some [''max_results'' \<mapsto> JStr ''abc'']) = Inr (JNum (Finite 5))
   \<and> js_Number (get_arg (Some [''max_results'' \<mapsto> JNum (Finite 0)]) ''max_results'')
       = Inr (Finite 0)
   \<and> maxResults (Some [''max_results'' \<mapsto> JNum (Finite 0)]) = Inr (JNum (Finite 5))
   \<and> js_Number (get_arg (Some [''max_results'' \<mapsto> JNum (Finite 3)]) ''max_results'')
       = Inr (Finite 3)
   \<and> maxResults (Some [''max_results'' \<mapsto> JNum (Finite 3)]) = Inr (JNum (Finite 3))"
proof -
  have abc: "StringToNumber ''abc'' = NaN"
    by code_simp
  show ?thesis
    using maxResults_default [of "Some Map.empty"]
      maxResults_default [of "Some [''max_results'' \<mapsto> JStr ''abc'']"]
      maxResults_default [of "Some [''max_results'' \<mapsto> JNum (Finite 0)]"]
      maxResults_default [of "Some [''max_results'' \<mapsto> JNum (Finite 3)]"]
    by (simp add: absent_def get_arg_def js_Number_def abc)
qed

text \<open>
  C3 as it is written gives the default to every argument that is not numeric. The
  argument \<^verbatim>\<open>true\<close> is not a number and its coerced value is 1; the argument
  \<^verbatim>\<open>{"toString": 0}\<close> is not a number and has no coerced value, since
  \<^verbatim>\<open>Number(...)\<close> throws.
\<close>

theorem maxResults_non_numeric_counterexample:
  "maxResults (Some [''max_results'' \<mapsto> JBool True]) = Inr (JNum (Finite 1))
   \<and> JNum (Finite 1) \<noteq> JNum (Finite 5)
   \<and> maxResults (Some [''max_results'' \<mapsto> JObj [(''toString'', JNum (Finite 0))]])
       = Inl (TypeError ''Cannot convert object to primitive value'')"
  by (simp add: maxResults_def get_arg_def js_Number_def js_or_def)

subsection \<open>The request sent to the external search\<close>

text \<open>
  Claim C4, as amended: for every \<^verbatim>\<open>deep_search\<close> call whose coerced \<^verbatim>\<open>query\<close> is a
  non-empty string and whose \<^verbatim>\<open>max_results\<close> argument has a numeric coercion that returns,
  the handler makes exactly one external search, with depth \<^verbatim>\<open>deep\<close>, output type
  \<^verbatim>\<open>sourcedAnswer\<close>, no images, and the coerced query.
\<close>

theorem nonempty_query_searches_once:
  "name r = ''deep_search'' \<Longrightarrow>
   js_String (get_arg (arguments r) ''query'') = Inr s \<Longrightarrow> s \<noteq> [] \<Longrightarrow>
   js_Number (get_arg (arguments r) ''max_results'') = Inr n \<Longrightarrow>
   snd (CallToolRequest_handler search r) =
     [\<lparr>query = s, depth = ''deep'', outputType = ''sourcedAnswer'', includeImages = False\<rparr>]"
  by (simp add: handler_searches)

theorem nonempty_query_searches_once_witness:
  "name \<lparr>name = ''deep_search'',
         arguments = Some [''query'' \<mapsto> JStr ''capital of France'',
                           ''max_results'' \<mapsto> JNum (Finite 3)]\<rparr> = ''deep_search''
   \<and> js_String (get_arg (Some [''query'' \<mapsto> JStr ''capital of France'',
                                ''max_results'' \<mapsto> JNum (Finite 3)]) ''query'')
       = Inr ''capital of France''
   \<and> ''capital of France'' \<noteq> []
   \<and> js_Number (get_arg (Some [''query'' \<mapsto> JStr ''capital of France'',
                                ''max_results'' \<mapsto> JNum (Finite 3)]) ''max_results'')
       = Inr (Finite 3)
   \<and> snd (CallToolRequest_handler (failing \<lparr>apiKey = JStr ''key''\<rparr>)
        \<lparr>name = ''deep_search'',
         arguments = Some [''query'' \<mapsto> JStr ''capital of France'',
                           ''max_results'' \<mapsto> JNum (Finite 3)]\<rparr>) =
       [\<lparr>query = ''capital of France'', depth = ''deep'', outputType = ''sourcedAnswer'',
         includeImages = False\<rparr>]"
  using nonempty_query_searches_once
    [of "\<lparr>name = ''deep_search'',
          arguments = Some [''query'' \<mapsto> JStr ''capital of France'',
                            ''max_results'' \<mapsto> JNum (Finite 3)]\<rparr>"
        "''capital of France''" "Finite 3" "failing \<lparr>apiKey = JStr ''key''\<rparr>"]
  by (simp add: get_arg_def js_String_def js_Number_def)

text \<open>
  C4 as it is written fails on
  \<^verbatim>\<open>{"query": "capital of France", "max_results": {"toString": 0}}\<close>: the coerced query is
  not empty and no search is made.
\<close>

theorem nonempty_query_no_search_counterexample:
  "js_String (get_arg (Some [''query'' \<mapsto> JStr ''capital of France'',
       ''max_results'' \<mapsto> JObj [(''toString'', JNum (Finite 0))]]) ''query'')
     = Inr ''capital of France''
   \<and> snd (CallToolRequest_handler (answering \<lparr>apiKey = JStr ''key''\<rparr>)
        \<lparr>name = ''deep_search'',
         arguments = Some [''query'' \<mapsto> JStr ''capital of France'',
           ''max_results'' \<mapsto> JObj [(''toString'', JNum (Finite 0))]]\<rparr>) = []"
  by (simp add: CallToolRequest_handler_def maxResults_def get_arg_def js_String_def
      js_Number_def)

text \<open>
  Claim C10, as amended: what the handler sends to the external search does not depend on
  \<^verbatim>\<open>max_results\<close>. For two requests that differ in nothing but their \<^verbatim>\<open>max_results\<close>
  argument, the search requests they issue are the same whenever both issue one; and when
  the numeric coercion of both \<^verbatim>\<open>max_results\<close> values returns, the two calls settle with
  the same outcome after the same search requests. Whether a search is issued at all does
  depend on \<^verbatim>\<open>max_results\<close>: a value whose coercion throws ends the call before the search.
\<close>

theorem search_ignores_max_results:
  "name r1 = name r2 \<Longrightarrow>
   \<forall>k. k \<noteq> ''max_results'' \<longrightarrow> get_arg (arguments r1) k = get_arg (arguments r2) k \<Longrightarrow>
   (snd (CallToolRequest_handler search r1) = [] \<or>
    snd (CallToolRequest_handler search r2) = [] \<or>
    snd (CallToolRequest_handler search r1) = snd (CallToolRequest_handler search r2))
   \<and> (\<forall>n1 n2. js_Number (get_arg (arguments r1) ''max_results'') = Inr n1 \<and>
              js_Number (get_arg (arguments r2) ''max_results'') = Inr n2 \<longrightarrow>
        CallToolRequest_handler search r1 = CallToolRequest_handler search r2)"
proof -
  assume nm: "name r1 = name r2"
    and same: "\<forall>k. k \<noteq> ''max_results'' \<longrightarrow>
      get_arg (arguments r1) k = get_arg (arguments r2) k"
  have q: "get_arg (arguments r1) ''query'' = get_arg (arguments r2) ''query''"
    using same by simp
  have first: "snd (CallToolRequest_handler search r1) = [] \<or>
    snd (CallToolRequest_handler search r2) = [] \<or>
    snd (CallToolRequest_handler search r1) = snd (CallToolRequest_handler search r2)"
    using handler_calls [of search r1] handler_calls [of search r2] q by auto
  have second: "CallToolRequest_handler search r1 = CallToolRequest_handler search r2"
    if m1: "js_Number (get_arg (arguments r1) ''max_results'') = Inr n1"
      and m2: "js_Number (get_arg (arguments r2) ''max_results'') = Inr n2" for n1 n2
    using nm q m1 m2
    by (simp add: CallToolRequest_handler_def maxResults_def Let_def split: sum.splits)
  show ?thesis
    using first second by blast
qed

theorem search_ignores_max_results_witness:
  "js_Number (get_arg (Some [''query'' \<mapsto> JStr ''capital of France'',
                             ''max_results'' \<mapsto> JNum (Finite 3)]) ''max_results'')
     = Inr (Finite 3)
   \<and> js_Number (get_arg (Some [''query'' \<mapsto> JStr ''capital of France'']) ''max_results'')
     = Inr NaN
   \<and> CallToolRequest_handler (answering \<lparr>apiKey = JStr ''key''\<rparr>)
        \<lparr>name = ''deep_search'',
         arguments = Some [''query'' \<mapsto> JStr ''capital of France'',
                           ''max_results'' \<mapsto> JNum (Finite 3)]\<rparr>
     = CallToolRequest_handler (answering \<lparr>apiKey = JStr ''key''\<rparr>)
        \<lparr>name = ''deep_search'',
         arguments = Some [''query'' \<mapsto> JStr ''capital of France'']\<rparr>"
proof -
  have same: "\<forall>k. k \<noteq> ''max_results'' \<longrightarrow>
      get_arg (arguments \<lparr>name = ''deep_search'',
         arguments = Some [''query'' \<mapsto> JStr ''capital of France'',
                           ''max_results'' \<mapsto> JNum (Finite 3)]\<rparr>) k
    = get_arg (arguments \<lparr>name = ''deep_search'',
         arguments = Some [''query'' \<mapsto> JStr ''capital of France'']\<rparr>) k"
    by (simp add: get_arg_def)
  have m1: "js_Number (get_arg (Some [''query'' \<mapsto> JStr ''capital of France'',
                             ''max_results'' \<mapsto> JNum (Finite 3)]) ''max_results'')
     = Inr (Finite 3)"
    by (simp add: get_arg_def js_Number_def)
  have m2: "js_Number (get_arg (Some [''query'' \<mapsto> JStr ''capital of France''])
      ''max_results'') = Inr NaN"
    by (simp add: get_arg_def js_Number_def)
  show ?thesis
    using m1 m2
      search_ignores_max_results [OF _ same, of "answering \<lparr>apiKey = JStr ''key''\<rparr>"]
    by simp
qed

text \<open>
  C10 as it is written fails on two requests with the query \<^verbatim>\<open>capital of France\<close>, one
  with \<^verbatim>\<open>max_results\<close> 3 and one with \<^verbatim>\<open>max_results\<close> \<^verbatim>\<open>{"toString": 3}\<close>: the first
  searches, the second does not.
\<close>

theorem max_results_decides_search_counterexample:
  "snd (CallToolRequest_handler (answering \<lparr>apiKey = JStr ''key''\<rparr>)
        \<lparr>name = ''deep_search'',
         arguments = Some [''query'' \<mapsto> JStr ''capital of France'',
                           ''max_results'' \<mapsto> JNum (Finite 3)]\<rparr>) =
     [\<lparr>query = ''capital of France'', depth = ''deep'', outputType = ''sourcedAnswer'',
       includeImages = False\<rparr>]
   \<and> snd (CallToolRequest_handler (answering \<lparr>apiKey = JStr ''key''\<rparr>)
        \<lparr>name = ''deep_search'',
         arguments = Some [''query'' \<mapsto> JStr ''capital of France'',
                           ''max_results'' \<mapsto> JObj [(''toString'', JNum (Finite 3))]]\<rparr>) = []"
  by (simp add: CallToolRequest_handler_def maxResults_def get_arg_def js_String_def
      js_Number_def answering_def)

subsection \<open>The result of a call\<close>

text \<open>
  Claim C5: in every \<^verbatim>\<open>deep_search\<close> call in which the external search succeeds with a
  result (any value but \<^verbatim>\<open>undefined\<close>; the claim speaks of an object), the result of the
  call holds exactly one content block, of type \<^verbatim>\<open>text\<close>, whose text is the JSON text of
  that result, indented by two.
\<close>

theorem search_result_is_wrapped:
  "snd (CallToolRequest_handler search r) = [params] \<Longrightarrow>
   search params = Inr results \<Longrightarrow> results \<noteq> JUndefined \<Longrightarrow>
   \<exists>t. JSON_stringify results 2 = Some t \<and>
       fst (CallToolRequest_handler search r) =
         Inr \<lparr>content = [\<lparr>type = ''text'', text = Some t\<rparr>]\<rparr>"
proof -
  assume calls: "snd (CallToolRequest_handler search r) = [params]"
    and ok: "search params = Inr results" and obj: "results \<noteq> JUndefined"
  obtain t where t: "JSON_stringify results 2 = Some t"
    using stringify_defined [OF obj] by blast
  have "fst (CallToolRequest_handler search r) =
          Inr \<lparr>content = [\<lparr>type = ''text'', text = JSON_stringify results 2\<rparr>]\<rparr>"
    using calls ok
    by (auto simp add: CallToolRequest_handler_def Let_def split: sum.splits if_splits)
  with t show ?thesis
    by simp
qed

theorem search_result_is_wrapped_witness:
  "snd (CallToolRequest_handler (answering \<lparr>apiKey = JStr ''key''\<rparr>)
          \<lparr>name = ''deep_search'',
           arguments = Some [''query'' \<mapsto> JStr ''capital of France'']\<rparr>)
     = [\<lparr>query = ''capital of France'', depth = ''deep'', outputType = ''sourcedAnswer'',
         includeImages = False\<rparr>]
   \<and> answering \<lparr>apiKey = JStr ''key''\<rparr>
        \<lparr>query = ''capital of France'', depth = ''deep'', outputType = ''sourcedAnswer'',
         includeImages = False\<rparr> = Inr sample_results
   \<and> sample_results \<noteq> JUndefined
   \<and> (\<exists>t. JSON_stringify sample_results 2 = Some t \<and>
        fst (CallToolRequest_handler (answering \<lparr>apiKey = JStr ''key''\<rparr>)
          \<lparr>name = ''deep_search'',
           arguments = Some [''query'' \<mapsto> JStr ''capital of France'']\<rparr>)
        = Inr \<lparr>content = [\<lparr>type = ''text'', text = Some t\<rparr>]\<rparr>)"
proof -
  have calls: "snd (CallToolRequest_handler (answering \<lparr>apiKey = JStr ''key''\<rparr>)
          \<lparr>name = ''deep_search'',
           arguments = Some [''query'' \<mapsto> JStr ''capital of France'']\<rparr>)
     = [\<lparr>query = ''capital of France'', depth = ''deep'', outputType = ''sourcedAnswer'',
         includeImages = False\<rparr>]"
    by (simp add: CallToolRequest_handler_def maxResults_def get_arg_def js_String_def
        js_Number_def answering_def)
  have ok: "answering \<lparr>apiKey = JStr ''key''\<rparr>
        \<lparr>query = ''capital of France'', depth = ''deep'', outputType = ''sourcedAnswer'',
         includeImages = False\<rparr> = Inr sample_results"
    by (simp add: answering_def)
  have obj: "sample_results \<noteq> JUndefined"
    by (simp add: sample_results_def)
  show ?thesis
    using calls ok obj search_result_is_wrapped [OF calls ok obj] by blast
qed

subsection \<open>An unknown tool\<close>

text \<open>
  Claim C6: every tool call whose name is not \<^verbatim>\<open>deep_search\<close> fails with UnknownTool and
  makes no external search; nothing is done with its arguments (the outcome is the same
  whatever they are, also where their coercion would throw), and the response is the only
  event of the call.
\<close>

theorem unknown_tool_rejected:
  "name r \<noteq> ''deep_search'' \<Longrightarrow>
   CallToolRequest_handler search r = (Inl UnknownTool, [])
   \<and> serve search (CallTool r) = [Responded (CallToolResponse (Inl UnknownTool))]"
  by (simp add: handler_unknown)

theorem unknown_tool_rejected_witness:
  "name \<lparr>name = ''unknown_tool'',
         arguments = Some [''query'' \<mapsto> JObj [(''toString'', JNull)]]\<rparr> \<noteq> ''deep_search''
   \<and> js_String (get_arg (Some [''query'' \<mapsto> JObj [(''toString'', JNull)]]) ''query'')
       = Inl (TypeError ''Cannot convert object to primitive value'')
   \<and> CallToolRequest_handler (answering \<lparr>apiKey = JStr ''key''\<rparr>)
        \<lparr>name = ''unknown_tool'',
         arguments = Some [''query'' \<mapsto> JObj [(''toString'', JNull)]]\<rparr>
       = (Inl UnknownTool, [])
   \<and> serve (answering \<lparr>apiKey = JStr ''key''\<rparr>)
        (CallTool \<lparr>name = ''unknown_tool'',
                   arguments = Some [''query'' \<mapsto> JObj [(''toString'', JNull)]]\<rparr>)
       = [Responded (CallToolResponse (Inl UnknownTool))]"
  using unknown_tool_rejected
    [of "\<lparr>name = ''unknown_tool'',
          arguments = Some [''query'' \<mapsto> JObj [(''toString'', JNull)]]\<rparr>"
        "answering \<lparr>apiKey = JStr ''key''\<rparr>"]
  by (simp add: get_arg_def js_String_def)

subsection \<open>The list of tools\<close>

text \<open>
  Claim C7, as amended: every list-tools request gets the same answer, whatever the request
  holds and whatever the external service is, and answering it is the only event: a list
  of exactly one tool, named \<^verbatim>\<open>deep_search\<close>. Its input schema requires \<^verbatim>\<open>query\<close>, whose own
  schema is a type and a description and nothing else, and gives \<^verbatim>\<open>max_results\<close> the
  default 5. What the schema accepts is exactly the objects with a \<^verbatim>\<open>query\<close> that is a string,
  of any length, and with no \<^verbatim>\<open>max_results\<close> or one that is a number.
\<close>

theorem list_tools_static:
  "ListToolsRequest_handler request = ListToolsRequest_handler JUndefined
   \<and> serve search (ListTools request) =
       [Responded (ListToolsResult (ListToolsRequest_handler JUndefined))]
   \<and> length (tools_of (ListToolsRequest_handler request)) = 1
   \<and> get (hd (tools_of (ListToolsRequest_handler request))) ''name'' = JStr ''deep_search''
   \<and> get (get (hd (tools_of (ListToolsRequest_handler request))) ''inputSchema'') ''required''
       = JArr [JStr ''query'']
   \<and> get (get (get (hd (tools_of (ListToolsRequest_handler request))) ''inputSchema'')
         ''properties'') ''query''
       = JObj [(''type'', JStr ''string''), (''description'', JStr ''Search query'')]
   \<and> get (get (get (get (hd (tools_of (ListToolsRequest_handler request))) ''inputSchema'')
         ''properties'') ''max_results'') ''default'' = JNum (Finite 5)
   \<and> validates (get (hd (tools_of (ListToolsRequest_handler request))) ''inputSchema'') instance
       = (\<exists>ps s. instance = JObj ps \<and> map_of ps ''query'' = Some (JStr s) \<and>
            (map_of ps ''max_results'' = None \<or>
             (\<exists>n. map_of ps ''max_results'' = Some (JNum n))))"
proof -
  have v: "validates (get (hd (tools_of (ListToolsRequest_handler request))) ''inputSchema'')
       instance
       = (\<exists>ps s. instance = JObj ps \<and> map_of ps ''query'' = Some (JStr s) \<and>
            (map_of ps ''max_results'' = None \<or>
             (\<exists>n. map_of ps ''max_results'' = Some (JNum n))))"
    by (cases "instance")
       (auto simp add: ListToolsRequest_handler_def tools_of_def get_def has_type_def
          has_properties_def split: option.splits jsval.splits)
  show ?thesis
    unfolding v
    by (simp add: ListToolsRequest_handler_def tools_of_def get_def)
qed

theorem list_tools_static_witness:
  "validates (get (hd (tools_of (ListToolsRequest_handler JNull))) ''inputSchema'')
     (JObj [(''query'', JStr ''capital of France''), (''max_results'', JNum (Finite 3))])
   \<and> \<not> validates (get (hd (tools_of (ListToolsRequest_handler JNull))) ''inputSchema'')
     (JObj [(''max_results'', JNum (Finite 3))])
   \<and> \<not> validates (get (hd (tools_of (ListToolsRequest_handler JNull))) ''inputSchema'')
     (JObj [(''query'', JNum (Finite 3))])
   \<and> serve (failing \<lparr>apiKey = JStr ''key''\<rparr>) (ListTools JNull) =
       [Responded (ListToolsResult (ListToolsRequest_handler JUndefined))]"
proof -
  have v: "validates (get (hd (tools_of (ListToolsRequest_handler JNull))) ''inputSchema'') i
       = (\<exists>ps s. i = JObj ps \<and> map_of ps ''query'' = Some (JStr s) \<and>
            (map_of ps ''max_results'' = None \<or>
             (\<exists>n. map_of ps ''max_results'' = Some (JNum n))))" for i
    using list_tools_static [of JNull "failing \<lparr>apiKey = JStr ''key''\<rparr>" i] by blast
  have s: "serve (failing \<lparr>apiKey = JStr ''key''\<rparr>) (ListTools JNull) =
       [Responded (ListToolsResult (ListToolsRequest_handler JUndefined))]"
    using list_tools_static [of JNull "failing \<lparr>apiKey = JStr ''key''\<rparr>" JNull] by blast
  show ?thesis
    unfolding v s by simp
qed

text \<open>
  C7 as it is written says that the schema requires a non-empty \<^verbatim>\<open>query\<close>. The schema
  accepts \<^verbatim>\<open>{"query": ""}\<close>; it is the call handler that rejects the empty string.
\<close>

theorem schema_accepts_empty_query_counterexample:
  "validates (get (hd (tools_of (ListToolsRequest_handler JNull))) ''inputSchema'')
     (JObj [(''query'', JStr [])])"
  by (simp add: ListToolsRequest_handler_def tools_of_def get_def has_type_def
      has_properties_def)

subsection \<open>Start-up and the credential\<close>

text \<open>
  Claim C8, as amended: if \<^verbatim>\<open>LINKUP_API_KEY\<close> is absent or is the empty string when the
  process starts, loading the module fails with ConfigurationError and the process ends
  without an event, so before it serves any request; if the variable holds a non-empty
  string, the client is constructed with it, first of all and exactly once, and every request
  is then served.
\<close>

theorem startup_needs_key:
  "(env ''LINKUP_API_KEY'' = None \<or> env ''LINKUP_API_KEY'' = Some [] \<longrightarrow>
      run linkup env requests = (Some ConfigurationError, []))
   \<and> (\<forall>k. env ''LINKUP_API_KEY'' = Some k \<and> k \<noteq> [] \<longrightarrow>
        run linkup env requests =
          (None, Constructed \<lparr>apiKey = JStr k\<rparr>
                 # concat (map (serve (linkup \<lparr>apiKey = JStr k\<rparr>)) requests))
        \<and> constructions (snd (run linkup env requests)) = [\<lparr>apiKey = JStr k\<rparr>])"
  by (auto simp add: run_def startup_fails startup_succeeds constructions_served)

theorem startup_needs_key_witness:
  "run answering Map.empty [ListTools JNull] = (Some ConfigurationError, [])
   \<and> run answering [''LINKUP_API_KEY'' \<mapsto> ''key''] [ListTools JNull] =
       (None, [Constructed \<lparr>apiKey = JStr ''key''\<rparr>,
               Responded (ListToolsResult (ListToolsRequest_handler JNull))])
   \<and> constructions (snd (run answering [''LINKUP_API_KEY'' \<mapsto> ''key''] [ListTools JNull])) =
       [\<lparr>apiKey = JStr ''key''\<rparr>]"
  using startup_needs_key [of Map.empty answering "[ListTools JNull]"]
    startup_needs_key [of "[''LINKUP_API_KEY'' \<mapsto> ''key'']" answering "[ListTools JNull]"]
  by simp

text \<open>
  C8 as it is written says that start-up proceeds whenever the variable is present. With
  the variable set to the empty string it is present, and the process ends at once.
\<close>

theorem empty_key_fails_counterexample:
  "[''LINKUP_API_KEY'' \<mapsto> []] ''LINKUP_API_KEY'' = Some []
   \<and> run answering [''LINKUP_API_KEY'' \<mapsto> []] [ListTools JNull] =
       (Some ConfigurationError, [])"
  by (simp add: run_def startup_def process_env_def)

subsection \<open>Where a coercion throws\<close>

text \<open>
  The two coercions of the handler throw for no value but an array or an object: for an
  absent argument and for \<^verbatim>\<open>null\<close>, a boolean, a number or a string they return.
\<close>

theorem coercion_throws_only_on_objects:
  "js_String v = Inl e \<or> js_Number v = Inl e \<Longrightarrow> (\<exists>xs. v = JArr xs) \<or> (\<exists>ps. v = JObj ps)"
  by (cases v) (simp_all add: js_String_def js_Number_def)

theorem coercion_throws_only_on_objects_witness:
  "js_Number (JArr [JStr ''1'', JObj [(''toString'', JNull)]])
     = Inl (TypeError ''Cannot convert object to primitive value'')
   \<and> ((\<exists>xs. JArr [JStr ''1'', JObj [(''toString'', JNull)]] = JArr xs) \<or>
       (\<exists>ps. JArr [JStr ''1'', JObj [(''toString'', JNull)]] = JObj ps))"
proof -
  have t: "js_Number (JArr [JStr ''1'', JObj [(''toString'', JNull)]])
     = Inl (TypeError ''Cannot convert object to primitive value'')"
    by (simp add: js_Number_def)
  show ?thesis
    using t coercion_throws_only_on_objects
      [of "JArr [JStr ''1'', JObj [(''toString'', JNull)]]"
          "TypeError ''Cannot convert object to primitive value''"]
    by blast
qed

subsection \<open>A failing search\<close>

text \<open>
  When the external search rejects, the call rejects with the same error, after that one
  search.
\<close>

theorem upstream_failure_propagates:
  "snd (CallToolRequest_handler search r) = [params] \<Longrightarrow> search params = Inl e \<Longrightarrow>
   fst (CallToolRequest_handler search r) = Inl e"
  by (auto simp add: CallToolRequest_handler_def Let_def split: sum.splits if_splits)

theorem upstream_failure_propagates_witness:
  "CallToolRequest_handler (failing \<lparr>apiKey = JStr ''key''\<rparr>)
      \<lparr>name = ''deep_search'', arguments = Some [''query'' \<mapsto> JStr ''capital of France'']\<rparr>
   = (Inl (LinkupError ''fetch failed''),
      [\<lparr>query = ''capital of France'', depth = ''deep'', outputType = ''sourcedAnswer'',
        includeImages = False\<rparr>])"
proof -
  have calls: "snd (CallToolRequest_handler (failing \<lparr>apiKey = JStr ''key''\<rparr>)
          \<lparr>name = ''deep_search'',
           arguments = Some [''query'' \<mapsto> JStr ''capital of France'']\<rparr>)
     = [\<lparr>query = ''capital of France'', depth = ''deep'', outputType = ''sourcedAnswer'',
         includeImages = False\<rparr>]"
    by (simp add: CallToolRequest_handler_def maxResults_def get_arg_def js_String_def
        js_Number_def failing_def)
  have ko: "failing \<lparr>apiKey = JStr ''key''\<rparr>
        \<lparr>query = ''capital of France'', depth = ''deep'', outputType = ''sourcedAnswer'',
         includeImages = False\<rparr> = Inl (LinkupError ''fetch failed'')"
    by (simp add: failing_def)
  show ?thesis
    using calls upstream_failure_propagates [OF calls ko]
    by (simp add: prod_eq_iff)
qed

end
